theory Spec2Isabelle
  imports Complex_Main
begin

section \<open>JavaScript values\<close>

text \<open>
  The front end reads loosely typed JSON. An optional field is an \<open>option\<close>; the
  operator \<^verbatim>\<open>a || d\<close> yields \<open>d\<close> when \<open>a\<close> is falsy: missing, the number
  \<open>0\<close>, the empty string or \<open>false\<close>.
\<close>

definition or_num :: "'a::zero option \<Rightarrow> 'a \<Rightarrow> 'a" where
  "or_num a d = (case a of None \<Rightarrow> d | Some v \<Rightarrow> if v = 0 then d else v)"

definition or_str :: "string option \<Rightarrow> string option \<Rightarrow> string option" where
  "or_str a b = (case a of None \<Rightarrow> b | Some v \<Rightarrow> if v = [] then b else Some v)"

definition or_bool :: "bool option \<Rightarrow> bool \<Rightarrow> bool" where
  "or_bool a d = (case a of None \<Rightarrow> d | Some v \<Rightarrow> if v then v else d)"

text \<open>What \<^verbatim>\<open>err.response?.data?.detail\<close> reads from a rejected request.\<close>

record ApiError =
  detail :: "string option"

definition detail_or :: "ApiError \<Rightarrow> string \<Rightarrow> string" where
  "detail_or err d = (case or_str (detail err) None of None \<Rightarrow> d | Some v \<Rightarrow> v)"


section \<open>Data model\<close>

text \<open>\<^verbatim>\<open>types/node.ts\<close>: \<^verbatim>\<open>NodeStatus\<close> and \<^verbatim>\<open>NodesStatusResponse\<close>.\<close>

record NodeStatus =
  node_id :: string
  status :: string
  files_count :: int
  capacity_gb :: "int option"
  capacity_bytes :: "int option"
  used_bytes :: "int option"
  utilization_percent :: "real option"
  available_bytes :: "int option"
  last_checked :: string
  simulated_failure :: "bool option"
  capacity :: "string option"

record NodesStatusResponse =
  total_nodes :: int
  online_nodes :: int
  nodes :: "NodeStatus list"

text \<open>
  An entry of \<^verbatim>\<open>GET /files\<close> (\<^verbatim>\<open>API_ENDPOINTS.md\<close>); the file list types it
  \<^verbatim>\<open>any\<close>, so every field that \<^verbatim>\<open>getHealthStatus\<close> tests for presence is optional.
\<close>

record Shard =
  bucket :: string
  shard_filename :: string
  url :: string
  shard_size :: int
  shard_index :: int

record Config =
  cfg_k :: "int option"
  cfg_m :: "int option"

record FileRec =
  file_id :: string
  filename :: string
  original_size :: int
  algorithm :: "string option"
  algorithm_used :: "string option"
  config :: "Config option"
  algorithm_config :: "Config option"
  shards :: "Shard list option"
  cost_estimate :: "real option"


section \<open>Cluster summary (\<^verbatim>\<open>NodeSummary\<close>)\<close>

record ClusterSummary =
  s_total :: int
  s_online :: int
  s_offline :: int
  healthLabel :: string
  healthColor :: string
  healthValue :: int

text \<open>
  The three \<^verbatim>\<open>let\<close> variables are assigned in sequence: the defaults, then the
  \<^verbatim>\<open>offline === 1\<close> branch, then the \<^verbatim>\<open>offline >= 2\<close> branch.
\<close>

definition NodeSummary :: "NodeStatus list \<Rightarrow> ClusterSummary" where
  "NodeSummary ns =
    (let total = int (length ns);
         online = int (length (filter (\<lambda>n. status n = ''online'') ns));
         offline = total - online;
         h0 = (''Excellent'', ''green'', 100::int);
         h1 = (if offline = 1 then (''Warning'', ''yellow'', 75) else h0);
         h2 = (if offline \<ge> 2 then (''Critical'', ''red'', 35) else h1)
     in \<lparr>s_total = total, s_online = online, s_offline = offline,
         healthLabel = fst h2, healthColor = fst (snd h2), healthValue = snd (snd h2)\<rparr>)"


section \<open>File list health badge (\<^verbatim>\<open>getHealthStatus\<close>)\<close>

datatype Icon = Activity | ShieldCheck | AlertCircle

record HealthBadge =
  label :: string
  color :: string
  icon :: Icon

definition hasShards :: "FileRec \<Rightarrow> bool" where
  "hasShards file = (case shards file of None \<Rightarrow> False | Some ss \<Rightarrow> length ss > 0)"

text \<open>\<^verbatim>\<open>file.algorithm || file.algorithm_used\<close>\<close>

definition file_algorithm :: "FileRec \<Rightarrow> string option" where
  "file_algorithm file = or_str (algorithm file) (algorithm_used file)"

text \<open>\<^verbatim>\<open>file.config || file.algorithm_config || {}\<close>: an object is truthy whatever it holds.\<close>

definition file_config :: "FileRec \<Rightarrow> Config" where
  "file_config file =
    (case config file of
       Some c \<Rightarrow> c
     | None \<Rightarrow> (case algorithm_config file of
                  Some c \<Rightarrow> c
                | None \<Rightarrow> \<lparr>cfg_k = None, cfg_m = None\<rparr>))"

text \<open>\<^verbatim>\<open>config.k || 3\<close>\<close>

definition minNeeded :: "FileRec \<Rightarrow> int" where
  "minNeeded file = or_num (cfg_k (file_config file)) 3"

definition totalShards :: "FileRec \<Rightarrow> int" where
  "totalShards file = (case shards file of None \<Rightarrow> 0 | Some ss \<Rightarrow> int (length ss))"

definition Unknown :: HealthBadge where
  "Unknown = \<lparr>label = ''Unknown'', color = ''slate'', icon = Activity\<rparr>"

definition Healthy :: HealthBadge where
  "Healthy = \<lparr>label = ''Healthy'', color = ''emerald'', icon = ShieldCheck\<rparr>"

definition Degraded :: HealthBadge where
  "Degraded = \<lparr>label = ''Degraded'', color = ''amber'', icon = AlertCircle\<rparr>"

definition getHealthStatus :: "FileRec \<Rightarrow> HealthBadge" where
  "getHealthStatus file =
    (if \<not> hasShards file then Unknown
     else if file_algorithm file = Some ''reed-solomon'' then
       (if totalShards file \<ge> minNeeded file then Healthy else Degraded)
     else if file_algorithm file = Some ''replication'' then Healthy
     else Healthy)"


section \<open>The health evaluator in the words of the specification\<close>

text \<open>
  These two definitions are not taken from the source. They follow section 4.1 of the
  specification (a shard is online iff the node it refers to is online, a missing node
  counts as offline; \<open>onlineShards\<close> counts the online shards) and are used only
  to say how many shards of a file are online when the badge of the file list is
  compared with the specification.
\<close>

definition spec_shard_online :: "NodeStatus list \<Rightarrow> Shard \<Rightarrow> bool" where
  "spec_shard_online ns sh =
    (case find (\<lambda>n. node_id n = bucket sh) ns of
       None \<Rightarrow> False
     | Some n \<Rightarrow> status n = ''online'')"

definition spec_onlineShards :: "NodeStatus list \<Rightarrow> FileRec \<Rightarrow> int" where
  "spec_onlineShards ns file =
    (case shards file of
       None \<Rightarrow> 0
     | Some ss \<Rightarrow> int (length (filter (spec_shard_online ns) ss)))"


section \<open>Reconstruction and deletion (\<^verbatim>\<open>FileList\<close>)\<close>

text \<open>
  The reply of \<^verbatim>\<open>GET /file/{id}/reconstruct-info\<close>, with the fields the handler
  reads. The record is total: a reply that lacks a field the message template
  dereferences is outside the model.
\<close>

record ReconstructInfo =
  info_filename :: string
  info_algorithm :: string
  total_shards :: int
  available_shards :: int
  needed_shards :: int
  missing_shards :: "int list"
  info_original_size :: int
  can_reconstruct :: bool

text \<open>
  The component state the two handlers write. The other state variables of the
  component (\<^verbatim>\<open>loading\<close>, \<^verbatim>\<open>statusData\<close>, \<^verbatim>\<open>statusLoading\<close>) are not touched
  by them.
\<close>

record FileListState =
  files :: "FileRec list"
  selectedFileId :: "string option"
  deleting :: "string option"
  deleteError :: "string option"
  reconstructing :: "string option"
  reconstructError :: "string option"

text \<open>What a handler does to the world, in order: requests sent and dialogs shown.\<close>

datatype Dialog =
    ReconstructionDetails ReconstructInfo
  | DownloadedSuccessfully string
  | DeletePrompt
  | ToggleFailed bool string

datatype Effect =
    GetReconstructInfo string
  | ReconstructFile string
  | DeleteFile string
  | RestoreNode string
  | SimulateNodeFailure string
  | OnNodeStatusChange
  | Confirm Dialog
  | Alert Dialog
  | SaveAs string string

text \<open>
  The handler returns nothing; the outcome names the branch it took: the download was
  saved, the insufficient-shards alert was shown, the operator dismissed the
  confirmation, or the \<^verbatim>\<open>catch\<close> block ran.
\<close>

datatype Outcome = Saved | Blocked | Declined | Failed

text \<open>\<^verbatim>\<open>info.filename || `reconstructed_${fileId}`\<close>\<close>

definition download_name :: "ReconstructInfo \<Rightarrow> string \<Rightarrow> string" where
  "download_name info fileId =
    (if info_filename info = [] then ''reconstructed_'' @ fileId else info_filename info)"

text \<open>
  The replies of the two requests and the operator's answer to \<^verbatim>\<open>confirm\<close> are
  arguments; a rejected request is \<open>Inl\<close>.
\<close>

definition handleReconstructFile ::
  "(ApiError + ReconstructInfo) \<Rightarrow> bool \<Rightarrow> (ApiError + string) \<Rightarrow> string \<Rightarrow>
     FileListState \<Rightarrow> Outcome \<times> Effect list \<times> FileListState" where
  "handleReconstructFile info_reply confirm_reply download_reply fileId s =
    (let s1 = s\<lparr>reconstructing := Some fileId, reconstructError := None\<rparr>;
         caught = (\<lambda>err. s1\<lparr>reconstructError :=
                      Some (detail_or err ''Failed to reconstruct file''),
                    reconstructing := None\<rparr>);
         finally = s1\<lparr>reconstructing := None\<rparr>
     in case info_reply of
          Inl err \<Rightarrow> (Failed, [GetReconstructInfo fileId], caught err)
        | Inr info \<Rightarrow>
            if can_reconstruct info then
              if confirm_reply then
                (case download_reply of
                   Inl err \<Rightarrow>
                     (Failed,
                      [GetReconstructInfo fileId, Confirm (ReconstructionDetails info),
                       ReconstructFile fileId],
                      caught err)
                 | Inr blob \<Rightarrow>
                     (Saved,
                      [GetReconstructInfo fileId, Confirm (ReconstructionDetails info),
                       ReconstructFile fileId, SaveAs (download_name info fileId) blob,
                       Alert (DownloadedSuccessfully (info_filename info))],
                      finally))
              else
                (Declined,
                 [GetReconstructInfo fileId, Confirm (ReconstructionDetails info)],
                 finally)
            else
              (Blocked,
               [GetReconstructInfo fileId, Alert (ReconstructionDetails info)],
               finally))"

definition handleDeleteFile ::
  "bool \<Rightarrow> (ApiError + unit) \<Rightarrow> string \<Rightarrow> FileListState \<Rightarrow> Effect list \<times> FileListState" where
  "handleDeleteFile confirm_reply delete_reply fileId s =
    (if \<not> confirm_reply then ([Confirm DeletePrompt], s)
     else
       let s1 = s\<lparr>deleting := Some fileId, deleteError := None\<rparr>
       in case delete_reply of
            Inr u \<Rightarrow>
              ([Confirm DeletePrompt, DeleteFile fileId],
               s1\<lparr>files := filter (\<lambda>f. file_id f \<noteq> fileId) (files s),
                  selectedFileId := None\<rparr>)
          | Inl err \<Rightarrow>
              ([Confirm DeletePrompt, DeleteFile fileId],
               s1\<lparr>deleteError := Some (detail_or err ''Failed to delete file''),
                  deleting := None\<rparr>))"


section \<open>Node card (\<^verbatim>\<open>NodeCard\<close>)\<close>

text \<open>
  \<^verbatim>\<open>node.capacity.replace(/\D/g, '')\<close> keeps the decimal digits; \<^verbatim>\<open>parseInt\<close> of
  a digit string is its decimal value, and \<^verbatim>\<open>NaN\<close> (here \<open>None\<close>) on the empty string.
\<close>

definition digits_only :: "string \<Rightarrow> string" where
  "digits_only s = filter (\<lambda>c. c \<in> set ''0123456789'') s"

definition parseInt :: "string \<Rightarrow> int option" where
  "parseInt s =
    (if s = [] then None
     else Some (foldl (\<lambda>a c. 10 * a + (int (of_char c) - 48)) 0 s))"

definition GiB :: int where
  "GiB = 1024 * 1024 * 1024"

text \<open>
  \<^verbatim>\<open>nodeData\<close>: the node with its defaults filled in. The current time, which the
  source reads when \<^verbatim>\<open>last_checked\<close> is empty, is the argument \<open>now\<close>.
\<close>

record NodeData =
  nd_node_id :: string
  nd_status :: string
  nd_files_count :: int
  nd_capacity_gb :: int
  nd_capacity_bytes :: int
  nd_used_bytes :: int
  nd_utilization_percent :: real
  nd_available_bytes :: int
  nd_last_checked :: string
  nd_simulated_failure :: bool

definition nodeData :: "string \<Rightarrow> NodeStatus \<Rightarrow> NodeData" where
  "nodeData now node =
    \<lparr>nd_node_id = (if node_id node = [] then ''Unknown Node'' else node_id node),
     nd_status = (if status node = [] then ''offline'' else status node),
     nd_files_count = or_num (Some (files_count node)) 0,
     nd_capacity_gb =
       or_num (capacity_gb node)
         (case capacity node of
            None \<Rightarrow> 50
          | Some c \<Rightarrow> if c = [] then 50 else or_num (parseInt (digits_only c)) 50),
     nd_capacity_bytes =
       or_num (capacity_bytes node)
         (case capacity_gb node of
            None \<Rightarrow> 50 * GiB
          | Some g \<Rightarrow> if g = 0 then 50 * GiB else g * GiB),
     nd_used_bytes = or_num (used_bytes node) 0,
     nd_utilization_percent = or_num (utilization_percent node) 0,
     nd_available_bytes =
       or_num (available_bytes node)
         (case capacity_bytes node of
            None \<Rightarrow> 50 * GiB
          | Some c \<Rightarrow> if c = 0 then 50 * GiB else c - or_num (used_bytes node) 0),
     nd_last_checked = (if last_checked node = [] then now else last_checked node),
     nd_simulated_failure = or_bool (simulated_failure node) False\<rparr>"

definition isOnline :: "NodeData \<Rightarrow> bool" where
  "isOnline nd = (nd_status nd = ''online'')"

definition displayUtilization :: "NodeData \<Rightarrow> real" where
  "displayUtilization nd =
    (if isOnline nd then max 0 (min 100 (nd_utilization_percent nd)) else 0)"

definition displayUsed :: "NodeData \<Rightarrow> int" where
  "displayUsed nd = (if isOnline nd then nd_used_bytes nd else 0)"

definition displayFiles :: "NodeData \<Rightarrow> int" where
  "displayFiles nd = (if isOnline nd then nd_files_count nd else 0)"

text \<open>The number the "Available" row hands to \<^verbatim>\<open>formatBytes\<close>.\<close>

definition displayAvailable :: "NodeData \<Rightarrow> int" where
  "displayAvailable nd = (if isOnline nd then nd_available_bytes nd else nd_capacity_bytes nd)"

text \<open>The width of the utilization bar, in percent.\<close>

definition barWidth :: "NodeData \<Rightarrow> real" where
  "barWidth nd = min 100 (max 0 (displayUtilization nd))"

text \<open>
  \<^verbatim>\<open>formatBytes\<close> answers \<^verbatim>\<open>'0 B'\<close> for zero; what it prints for another number
  goes through floating-point logarithms and rounding and is the argument \<open>fmt\<close>.
\<close>

definition formatBytes :: "(int \<Rightarrow> string) \<Rightarrow> int \<Rightarrow> string" where
  "formatBytes fmt bytes = (if bytes = 0 then ''0 B'' else fmt bytes)"

subsection \<open>The toggle button\<close>

text \<open>
  \<^verbatim>\<open>handleToggleFailure\<close> suspends once, at the request it awaits. \<open>toggle_start\<close>
  is the handler up to that point: the guard on \<^verbatim>\<open>isToggling\<close>, the marker, and
  the request chosen by \<^verbatim>\<open>simulated_failure\<close>. \<open>toggle_settle\<close> is the rest, from
  the reply through \<^verbatim>\<open>finally\<close>; \<open>cb\<close> says whether \<^verbatim>\<open>onNodeStatusChange\<close> was
  passed. Both return the effects and the new value of \<^verbatim>\<open>isToggling\<close>.
\<close>

definition toggle_command :: "NodeData \<Rightarrow> Effect" where
  "toggle_command nd =
    (if nd_simulated_failure nd then RestoreNode (nd_node_id nd)
     else SimulateNodeFailure (nd_node_id nd))"

definition toggle_start :: "NodeData \<Rightarrow> bool \<Rightarrow> Effect list \<times> bool" where
  "toggle_start nd isToggling =
    (if isToggling then ([], isToggling) else ([toggle_command nd], True))"

definition toggle_settle :: "bool \<Rightarrow> (ApiError + unit) \<Rightarrow> NodeData \<Rightarrow> Effect list \<times> bool" where
  "toggle_settle cb reply nd =
    (case reply of
       Inr u \<Rightarrow> (if cb then [OnNodeStatusChange] else [], False)
     | Inl err \<Rightarrow> ([Alert (ToggleFailed (nd_simulated_failure nd) (nd_node_id nd))], False))"

definition handleToggleFailure ::
  "bool \<Rightarrow> (ApiError + unit) \<Rightarrow> NodeData \<Rightarrow> bool \<Rightarrow> Effect list \<times> bool" where
  "handleToggleFailure cb reply nd isToggling =
    (if isToggling then ([], isToggling)
     else
       let (es1, t1) = toggle_start nd isToggling;
           (es2, t2) = toggle_settle cb reply nd
       in (es1 @ es2, t2))"

section \<open>Dashboard polling (\<^verbatim>\<open>loadData\<close>)\<close>

record DashboardState =
  d_data :: "NodesStatusResponse option"
  d_files :: "FileRec list"
  d_loading :: bool
  d_error :: "string option"

text \<open>What \<^verbatim>\<open>GET /files\<close> resolves to: an array, or any other JSON value.\<close>

datatype FilesPayload = FilesArray "FileRec list" | NotAnArray

definition zero_nodes :: NodesStatusResponse where
  "zero_nodes = \<lparr>total_nodes = 0, online_nodes = 0, nodes = []\<rparr>"

text \<open>
  Each fetch carries its own \<^verbatim>\<open>catch\<close>, so \<^verbatim>\<open>Promise.all\<close> never rejects and
  nothing else in the \<^verbatim>\<open>try\<close> block throws: the outer \<^verbatim>\<open>catch\<close> has no branch
  here. The arguments are the settlements of the two fetches.
\<close>

definition loadData ::
  "(ApiError + NodesStatusResponse) \<Rightarrow> (ApiError + FilesPayload) \<Rightarrow>
     DashboardState \<Rightarrow> DashboardState" where
  "loadData node_fetch files_fetch s =
    (let s1 = s\<lparr>d_loading := True\<rparr>;
         nodeRes = (case node_fetch of Inl err \<Rightarrow> zero_nodes | Inr r \<Rightarrow> r);
         filesRes = (case files_fetch of Inl err \<Rightarrow> FilesArray [] | Inr r \<Rightarrow> r);
         s2 = s1\<lparr>d_data := Some nodeRes,
                d_files := (case filesRes of FilesArray fs \<Rightarrow> fs | NotAnArray \<Rightarrow> []),
                d_error := None\<rparr>
     in s2\<lparr>d_loading := False\<rparr>)"


section \<open>The node grid (\<^verbatim>\<open>Dashboard\<close> and its cards)\<close>


text \<open>
  \<^verbatim>\<open>isToggling\<close> is \<^verbatim>\<open>useState(false)\<close> of one mounted card, so there is one marker
  per card instance, not per node id. A card holds its \<^verbatim>\<open>node\<close> prop with the
  defaults filled in, the marker as the state holds it, and the marker as the last
  render captured it: \<^verbatim>\<open>handleToggleFailure\<close> is a closure of that render, and its
  guard reads the captured value.
\<close>

record Card =
  card_node :: NodeData
  isToggling :: bool
  captured :: bool













section \<open>Example inputs\<close>

definition mk_node :: "string \<Rightarrow> string \<Rightarrow> NodeStatus" where
  "mk_node n st = \<lparr>node_id = n, status = st, files_count = 12, capacity_gb = Some 50,
     capacity_bytes = Some 53687091200, used_bytes = Some 1048576,
     utilization_percent = Some 42, available_bytes = Some 53686042624,
     last_checked = ''2024-01-15T10:30:00Z'', simulated_failure = Some (st \<noteq> ''online''),
     capacity = None\<rparr>"

definition cluster_one_down :: "NodeStatus list" where
  "cluster_one_down = [mk_node ''node-1'' ''online'', mk_node ''node-2'' ''offline'',
     mk_node ''node-3'' ''online'', mk_node ''node-4'' ''online'', mk_node ''node-5'' ''online'']"

definition shard :: "string \<Rightarrow> int \<Rightarrow> Shard" where
  "shard b i = \<lparr>bucket = b, shard_filename = ''f_shard.cosm'', url = ''https://store'',
     shard_size = 1024, shard_index = i\<rparr>"

definition file_without_shards :: FileRec where
  "file_without_shards = \<lparr>file_id = ''f0'', filename = ''empty.bin'', original_size = 0,
     algorithm = Some ''reed-solomon'', algorithm_used = None,
     config = Some \<lparr>cfg_k = Some 4, cfg_m = Some 2\<rparr>, algorithm_config = None,
     shards = Some [], cost_estimate = None\<rparr>"


definition cluster_all_up :: "NodeStatus list" where
  "cluster_all_up = map (\<lambda>n. mk_node n ''online'')
     [''node-1'', ''node-2'', ''node-3'', ''node-4'', ''node-5'']"

definition cluster_node1_down :: "NodeStatus list" where
  "cluster_node1_down = [mk_node ''node-1'' ''offline'', mk_node ''node-2'' ''online'',
     mk_node ''node-3'' ''online'', mk_node ''node-4'' ''online'', mk_node ''node-5'' ''online'']"

definition cluster_two_down :: "NodeStatus list" where
  "cluster_two_down = [mk_node ''node-1'' ''offline'', mk_node ''node-2'' ''offline'',
     mk_node ''node-3'' ''online'', mk_node ''node-4'' ''online'', mk_node ''node-5'' ''online'']"

definition cluster_all_down :: "NodeStatus list" where
  "cluster_all_down = map (\<lambda>n. mk_node n ''offline'')
     [''node-1'', ''node-2'', ''node-3'', ''node-4'', ''node-5'']"

text \<open>Reed-Solomon with k = 4 and m = 2: six shards, two of them on node-1.\<close>

definition rs_4_2_file :: FileRec where
  "rs_4_2_file = \<lparr>file_id = ''f1'', filename = ''document.pdf'', original_size = 2048576,
     algorithm = Some ''reed-solomon'', algorithm_used = None,
     config = Some \<lparr>cfg_k = Some 4, cfg_m = Some 2\<rparr>, algorithm_config = None,
     shards = Some [shard ''node-1'' 0, shard ''node-2'' 1, shard ''node-3'' 2,
                    shard ''node-4'' 3, shard ''node-5'' 4, shard ''node-1'' 5],
     cost_estimate = Some 1.5\<rparr>"

text \<open>Replication with factor 3: one copy on each of node-1, node-2 and node-3.\<close>

definition replication_file :: FileRec where
  "replication_file = \<lparr>file_id = ''f2'', filename = ''critical.log'', original_size = 4096,
     algorithm = Some ''replication'', algorithm_used = None,
     config = None, algorithm_config = None,
     shards = Some [shard ''node-1'' 0, shard ''node-2'' 1, shard ''node-3'' 2],
     cost_estimate = Some 3\<rparr>"

definition xor_file :: FileRec where
  "xor_file = \<lparr>file_id = ''f3'', filename = ''small.bin'', original_size = 512,
     algorithm = Some ''xor-parity'', algorithm_used = None,
     config = None, algorithm_config = None,
     shards = Some [shard ''node-1'' 0, shard ''node-2'' 1, shard ''node-3'' 2],
     cost_estimate = Some 1.5\<rparr>"

text \<open>Reed-Solomon files that carry no configuration, with three shards and with two.\<close>

definition rs_unconfigured :: "nat \<Rightarrow> FileRec" where
  "rs_unconfigured n = \<lparr>file_id = ''f4'', filename = ''video.mp4'', original_size = 8192,
     algorithm = Some ''reed-solomon'', algorithm_used = None,
     config = None, algorithm_config = None,
     shards = Some (map (\<lambda>i. shard ''node-1'' (int i)) [0..<n]),
     cost_estimate = None\<rparr>"


definition fl0 :: FileListState where
  "fl0 = \<lparr>files = [rs_4_2_file, replication_file], selectedFileId = Some ''f1'',
     deleting = None, deleteError = None, reconstructing = None, reconstructError = None\<rparr>"

text \<open>A reply of the reconstruct-info request for a file with three of six shards left.\<close>

definition info_short :: ReconstructInfo where
  "info_short = \<lparr>info_filename = ''document.pdf'', info_algorithm = ''reed-solomon'',
     total_shards = 6, available_shards = 3, needed_shards = 4, missing_shards = [0, 1, 5],
     info_original_size = 2048576, can_reconstruct = False\<rparr>"


definition card2 :: NodeData where
  "card2 = nodeData ''2024-01-15T10:31:00Z'' (mk_node ''node-2'' ''offline'')"

definition dash0 :: DashboardState where
  "dash0 = \<lparr>d_data = Some \<lparr>total_nodes = 5, online_nodes = 4, nodes = cluster_one_down\<rparr>,
     d_files = [rs_4_2_file], d_loading = False, d_error = None\<rparr>"


section \<open>Cluster summary: properties\<close>

lemma filter_length_int: "int (length (filter P xs)) \<le> int (length xs)"
  by simp

text \<open>
  C3. The summary's failed-node count is the total minus the online count, it is never
  negative, and the health label and score are the step function of it: none offline
  gives Excellent and 100, exactly one gives Warning and 75, two or more give Critical
  and 35.
\<close>

theorem NodeSummary_step_function:
  "s_total (NodeSummary ns) = int (length ns) \<and>
   s_online (NodeSummary ns) = int (length (filter (\<lambda>n. status n = ''online'') ns)) \<and>
   s_offline (NodeSummary ns) = s_total (NodeSummary ns) - s_online (NodeSummary ns) \<and>
   0 \<le> s_offline (NodeSummary ns) \<and>
   (s_offline (NodeSummary ns) = 0 \<longrightarrow>
      healthLabel (NodeSummary ns) = ''Excellent'' \<and> healthValue (NodeSummary ns) = 100) \<and>
   (s_offline (NodeSummary ns) = 1 \<longrightarrow>
      healthLabel (NodeSummary ns) = ''Warning'' \<and> healthValue (NodeSummary ns) = 75) \<and>
   (s_offline (NodeSummary ns) \<ge> 2 \<longrightarrow>
      healthLabel (NodeSummary ns) = ''Critical'' \<and> healthValue (NodeSummary ns) = 35)"
  using filter_length_int [of "\<lambda>n. status n = ''online''" ns]
  by (simp add: NodeSummary_def Let_def)

theorem NodeSummary_step_function_witness:
  "s_total (NodeSummary cluster_all_up) = 5 \<and>
   s_offline (NodeSummary cluster_all_up) = 0 \<and>
   healthLabel (NodeSummary cluster_all_up) = ''Excellent'' \<and>
   healthValue (NodeSummary cluster_all_up) = 100 \<and>
   s_total (NodeSummary cluster_one_down) = 5 \<and>
   s_offline (NodeSummary cluster_one_down) = 1 \<and>
   healthLabel (NodeSummary cluster_one_down) = ''Warning'' \<and>
   healthValue (NodeSummary cluster_one_down) = 75 \<and>
   s_total (NodeSummary cluster_two_down) = 5 \<and>
   s_offline (NodeSummary cluster_two_down) = 2 \<and>
   healthLabel (NodeSummary cluster_two_down) = ''Critical'' \<and>
   healthValue (NodeSummary cluster_two_down) = 35"
proof -
  have off: "s_offline (NodeSummary cluster_all_up) = 0"
            "s_offline (NodeSummary cluster_one_down) = 1"
            "s_offline (NodeSummary cluster_two_down) = 2"
    by (simp_all add: NodeSummary_def Let_def cluster_all_up_def cluster_one_down_def
          cluster_two_down_def mk_node_def)
  have tot: "s_total (NodeSummary cluster_all_up) = 5"
            "s_total (NodeSummary cluster_one_down) = 5"
            "s_total (NodeSummary cluster_two_down) = 5"
    by (simp_all add: NodeSummary_def Let_def cluster_all_up_def cluster_one_down_def
          cluster_two_down_def)
  from NodeSummary_step_function [of cluster_all_up]
       NodeSummary_step_function [of cluster_one_down]
       NodeSummary_step_function [of cluster_two_down] off tot
  show ?thesis by simp
qed


section \<open>File list health badge: properties\<close>

text \<open>
  C4. A file record with no shards recorded (the field missing, or an empty list) gets
  the Unknown badge, whatever algorithm it declares.
\<close>

theorem getHealthStatus_no_shards:
  assumes "shards file = None \<or> shards file = Some []"
  shows "getHealthStatus file = Unknown \<and> label (getHealthStatus file) = ''Unknown''"
  using assms by (auto simp: getHealthStatus_def hasShards_def Unknown_def)

theorem getHealthStatus_no_shards_witness:
  "shards file_without_shards = Some [] \<and>
   algorithm file_without_shards = Some ''reed-solomon'' \<and>
   label (getHealthStatus file_without_shards) = ''Unknown''"
proof -
  have h: "shards file_without_shards = Some []"
    by (simp add: file_without_shards_def)
  have a: "algorithm file_without_shards = Some ''reed-solomon''"
    by (simp add: file_without_shards_def)
  from getHealthStatus_no_shards [of file_without_shards] h a show ?thesis
    by (simp add: Unknown_def)
qed

lemma badges_distinct:
  "Healthy \<noteq> Degraded" "Healthy \<noteq> Unknown" "Degraded \<noteq> Unknown"
  by (simp_all add: Healthy_def Degraded_def Unknown_def)

lemma rs_4_2_file_facts:
  "hasShards rs_4_2_file" "file_algorithm rs_4_2_file = Some ''reed-solomon''"
  "totalShards rs_4_2_file = 6" "minNeeded rs_4_2_file = 4"
  by (simp_all add: rs_4_2_file_def hasShards_def file_algorithm_def or_str_def
        totalShards_def minNeeded_def file_config_def or_num_def)

lemma rs_4_2_file_online:
  "spec_onlineShards cluster_all_up rs_4_2_file = 6"
  "spec_onlineShards cluster_node1_down rs_4_2_file = 4"
  "spec_onlineShards cluster_two_down rs_4_2_file = 3"
  by (simp_all add: spec_onlineShards_def spec_shard_online_def rs_4_2_file_def shard_def
        cluster_all_up_def cluster_node1_down_def cluster_two_down_def mk_node_def)

text \<open>
  C1 as the specification states it fails on the badge of the file list. The file is
  Reed-Solomon with k = 4 and m = 2 and has six shards. With nodes 1 and 2 offline three
  shards are online, fewer than k, yet the badge is Healthy, not Critical; with node 1
  offline four shards are online and the badge is Healthy, not Degraded.
\<close>

theorem getHealthStatus_reed_solomon_counterexample:
  "file_algorithm rs_4_2_file = Some ''reed-solomon'' \<and>
   totalShards rs_4_2_file = 6 \<and> minNeeded rs_4_2_file = 4 \<and>
   spec_onlineShards cluster_two_down rs_4_2_file = 3 \<and>
   label (getHealthStatus rs_4_2_file) = ''Healthy'' \<and>
   \<not> (label (getHealthStatus rs_4_2_file) = ''Critical'' \<longleftrightarrow>
      \<not> spec_onlineShards cluster_two_down rs_4_2_file \<ge> minNeeded rs_4_2_file) \<and>
   spec_onlineShards cluster_node1_down rs_4_2_file = 4 \<and>
   \<not> (label (getHealthStatus rs_4_2_file) = ''Degraded'' \<longleftrightarrow>
      spec_onlineShards cluster_node1_down rs_4_2_file \<ge> minNeeded rs_4_2_file \<and>
      spec_onlineShards cluster_node1_down rs_4_2_file < totalShards rs_4_2_file)"
  by (simp add: rs_4_2_file_facts rs_4_2_file_online getHealthStatus_def Healthy_def)

text \<open>
  C1, amended. For every file with at least one shard recorded: if its algorithm is
  reed-solomon the badge is Healthy iff the number of recorded shards is at least k
  (\<^verbatim>\<open>config.k\<close>, or 3 when that is missing or zero) and Degraded iff it is smaller; if
  its algorithm is xor-parity the badge is Healthy. The badge is never Critical, and the
  function takes no node state: it does not depend on how many shards are online.
\<close>

theorem getHealthStatus_reed_solomon:
  assumes "hasShards file"
  shows "(file_algorithm file = Some ''reed-solomon'' \<longrightarrow>
           (getHealthStatus file = Healthy \<longleftrightarrow> minNeeded file \<le> totalShards file) \<and>
           (getHealthStatus file = Degraded \<longleftrightarrow> totalShards file < minNeeded file)) \<and>
         (file_algorithm file = Some ''xor-parity'' \<longrightarrow> getHealthStatus file = Healthy) \<and>
         label (getHealthStatus file) \<noteq> ''Critical''"
  using assms badges_distinct
  by (auto simp: getHealthStatus_def Unknown_def Healthy_def Degraded_def)

theorem getHealthStatus_reed_solomon_witness:
  "hasShards rs_4_2_file \<and> file_algorithm rs_4_2_file = Some ''reed-solomon'' \<and>
   minNeeded rs_4_2_file \<le> totalShards rs_4_2_file \<and>
   getHealthStatus rs_4_2_file = Healthy \<and>
   hasShards xor_file \<and> file_algorithm xor_file = Some ''xor-parity'' \<and>
   getHealthStatus xor_file = Healthy"
proof -
  have x: "hasShards xor_file" "file_algorithm xor_file = Some ''xor-parity''"
    by (simp_all add: xor_file_def hasShards_def file_algorithm_def or_str_def)
  from getHealthStatus_reed_solomon [OF rs_4_2_file_facts(1)]
       getHealthStatus_reed_solomon [OF x(1)] x rs_4_2_file_facts
  show ?thesis by simp
qed

lemma replication_file_facts:
  "hasShards replication_file" "file_algorithm replication_file = Some ''replication''"
  "totalShards replication_file = 3"
  by (simp_all add: replication_file_def hasShards_def file_algorithm_def or_str_def
        totalShards_def)

lemma replication_file_online:
  "spec_onlineShards cluster_two_down replication_file = 1"
  "spec_onlineShards cluster_all_down replication_file = 0"
  by (simp_all add: spec_onlineShards_def spec_shard_online_def replication_file_def shard_def
        cluster_all_down_def cluster_two_down_def mk_node_def)

text \<open>
  C2 as the specification states it fails on the badge of the file list. The file is
  replicated three times. With one copy online the badge is Healthy, not Degraded; with
  no copy online the badge is Healthy, not Critical.
\<close>

theorem getHealthStatus_replication_counterexample:
  "file_algorithm replication_file = Some ''replication'' \<and>
   totalShards replication_file = 3 \<and>
   spec_onlineShards cluster_two_down replication_file = 1 \<and>
   label (getHealthStatus replication_file) = ''Healthy'' \<and>
   label (getHealthStatus replication_file) \<noteq> ''Degraded'' \<and>
   spec_onlineShards cluster_all_down replication_file = 0 \<and>
   label (getHealthStatus replication_file) \<noteq> ''Critical''"
  by (simp add: replication_file_facts replication_file_online getHealthStatus_def
        Healthy_def)

text \<open>
  C2, amended. For every file whose algorithm is replication and that has at least one
  shard recorded, the badge is Healthy: one recorded copy is taken to be sufficient, and
  the number of copies online is not consulted.
\<close>

theorem getHealthStatus_replication:
  assumes "hasShards file" and "file_algorithm file = Some ''replication''"
  shows "getHealthStatus file = Healthy"
  using assms by (simp add: getHealthStatus_def)

theorem getHealthStatus_replication_witness:
  "hasShards replication_file \<and>
   file_algorithm replication_file = Some ''replication'' \<and>
   getHealthStatus replication_file = Healthy"
  using getHealthStatus_replication [OF replication_file_facts(1) replication_file_facts(2)]
        replication_file_facts
  by simp

lemma rs_unconfigured_facts:
  "hasShards (rs_unconfigured (Suc n))"
  "file_algorithm (rs_unconfigured n) = Some ''reed-solomon''"
  "totalShards (rs_unconfigured n) = int n"
  "cfg_k (file_config (rs_unconfigured n)) = None"
  by (simp_all add: rs_unconfigured_def hasShards_def file_algorithm_def or_str_def
        totalShards_def file_config_def)

text \<open>
  C5 as the specification states it fails. A Reed-Solomon file that carries no
  configuration and has three shards gets the badge Healthy, and with two shards
  Degraded: k = 3 was substituted, and the badge is not Unknown.
\<close>

theorem getHealthStatus_default_k_counterexample:
  "config (rs_unconfigured 3) = None \<and> algorithm_config (rs_unconfigured 3) = None \<and>
   file_algorithm (rs_unconfigured 3) = Some ''reed-solomon'' \<and>
   minNeeded (rs_unconfigured 3) = 3 \<and>
   getHealthStatus (rs_unconfigured 3) = Healthy \<and>
   getHealthStatus (rs_unconfigured 2) = Degraded \<and>
   getHealthStatus (rs_unconfigured 3) \<noteq> Unknown \<and>
   label (getHealthStatus (rs_unconfigured 3)) \<noteq> ''Unknown''"
proof -
  have h: "hasShards (rs_unconfigured 3)" "hasShards (rs_unconfigured 2)"
    using rs_unconfigured_facts(1) [of 2] rs_unconfigured_facts(1) [of 1]
    by (simp_all add: numeral_3_eq_3 numeral_2_eq_2)
  have c: "config (rs_unconfigured 3) = None" "algorithm_config (rs_unconfigured 3) = None"
    by (simp_all add: rs_unconfigured_def)
  show ?thesis
    using h c badges_distinct
    by (simp add: getHealthStatus_def rs_unconfigured_facts minNeeded_def or_num_def
          Healthy_def)
qed

text \<open>
  C5, amended. For every Reed-Solomon file with at least one shard recorded whose
  configuration supplies no k (no configuration, no \<^verbatim>\<open>k\<close> in it, or \<^verbatim>\<open>k\<close> zero),
  the badge is computed with k = 3: Healthy when at least three shards are recorded,
  Degraded otherwise, and never Unknown.
\<close>

theorem getHealthStatus_default_k:
  assumes "hasShards file" and "file_algorithm file = Some ''reed-solomon''"
    and "cfg_k (file_config file) = None \<or> cfg_k (file_config file) = Some 0"
  shows "minNeeded file = 3 \<and>
         getHealthStatus file = (if 3 \<le> totalShards file then Healthy else Degraded) \<and>
         getHealthStatus file \<noteq> Unknown"
proof -
  from assms(3) have k: "minNeeded file = 3"
    by (auto simp: minNeeded_def or_num_def)
  with assms(1,2) badges_distinct show ?thesis
    by (simp add: getHealthStatus_def)
qed

theorem getHealthStatus_default_k_witness:
  "hasShards (rs_unconfigured 2) \<and>
   file_algorithm (rs_unconfigured 2) = Some ''reed-solomon'' \<and>
   cfg_k (file_config (rs_unconfigured 2)) = None \<and>
   minNeeded (rs_unconfigured 2) = 3 \<and>
   getHealthStatus (rs_unconfigured 2) = Degraded"
proof -
  have h: "hasShards (rs_unconfigured 2)"
    using rs_unconfigured_facts(1) [of 1] by (simp add: numeral_2_eq_2)
  have k: "cfg_k (file_config (rs_unconfigured 2)) = None \<or>
           cfg_k (file_config (rs_unconfigured 2)) = Some 0"
    by (simp add: rs_unconfigured_facts)
  from getHealthStatus_default_k [OF h rs_unconfigured_facts(2) k] h
  show ?thesis by (simp add: rs_unconfigured_facts)
qed


section \<open>Reconstruction workflow: properties\<close>

text \<open>
  C6. When the reconstruct-info request answers with \<^verbatim>\<open>can_reconstruct\<close> false, the
  handler takes the Blocked branch: it shows the details alert, asks for no
  confirmation, sends no download request for any file, and clears its marker.
\<close>

theorem handleReconstructFile_blocked:
  assumes "\<not> can_reconstruct info"
  shows "handleReconstructFile (Inr info) confirm_reply download_reply fileId s =
           (Blocked,
            [GetReconstructInfo fileId, Alert (ReconstructionDetails info)],
            s\<lparr>reconstructing := None, reconstructError := None\<rparr>) \<and>
         ReconstructFile f \<notin>
           set (fst (snd (handleReconstructFile (Inr info) confirm_reply download_reply fileId s)))"
  using assms by (simp add: handleReconstructFile_def Let_def)

theorem handleReconstructFile_blocked_witness:
  "\<not> can_reconstruct info_short \<and>
   available_shards info_short < needed_shards info_short \<and>
   fst (handleReconstructFile (Inr info_short) True (Inr ''payload'') ''f1'' fl0) = Blocked \<and>
   ReconstructFile ''f1'' \<notin>
     set (fst (snd (handleReconstructFile (Inr info_short) True (Inr ''payload'') ''f1'' fl0)))"
proof -
  have h: "\<not> can_reconstruct info_short"
    by (simp add: info_short_def)
  have a: "available_shards info_short < needed_shards info_short"
    by (simp add: info_short_def)
  from handleReconstructFile_blocked
         [OF h, of True "Inr ''payload''" "''f1''" fl0 "''f1''"] h a
  show ?thesis by simp
qed


section \<open>Node toggle: properties\<close>
















section \<open>In-flight markers: properties\<close>

lemma handleReconstructFile_clears_marker:
  "reconstructing (snd (snd (handleReconstructFile info_reply confirm_reply download_reply
      fileId s))) = None"
  by (simp add: handleReconstructFile_def Let_def split: sum.splits)

lemma handleToggleFailure_clears_marker:
  "snd (handleToggleFailure cb reply nd False) = False"
  by (simp add: handleToggleFailure_def toggle_start_def toggle_settle_def split: sum.splits)

lemma handleDeleteFile_failure_clears_marker:
  "deleting (snd (handleDeleteFile True (Inl err) fileId s)) = None"
  by (simp add: handleDeleteFile_def Let_def)

text \<open>
  C8 fails for deletion. The reconstruct and toggle handlers clear their marker in a
  \<^verbatim>\<open>finally\<close> block, and the delete handler clears its marker in its \<^verbatim>\<open>catch\<close>
  block, as the three lemmas above say. On the success path of the delete handler
  nothing clears it: after file f1 is deleted and removed from the list, the marker
  still names f1.
\<close>

theorem handleDeleteFile_marker_remains:
  "deleting fl0 = None \<and>
   fst (handleDeleteFile True (Inr ()) ''f1'' fl0) = [Confirm DeletePrompt, DeleteFile ''f1''] \<and>
   map file_id (files (snd (handleDeleteFile True (Inr ()) ''f1'' fl0))) = [''f2''] \<and>
   deleteError (snd (handleDeleteFile True (Inr ()) ''f1'' fl0)) = None \<and>
   deleting (snd (handleDeleteFile True (Inr ()) ''f1'' fl0)) = Some ''f1''"
  by (simp add: handleDeleteFile_def Let_def fl0_def rs_4_2_file_def replication_file_def)


section \<open>Dashboard polling: properties\<close>

text \<open>
  C9. A poll never aborts on a failed fetch. When the node fetch fails and the file
  fetch succeeds, the snapshot becomes the one with zero nodes and the fetched file list
  is applied; when the file fetch fails and the node fetch succeeds, the fetched
  snapshot is applied and the file list becomes empty; when both fail, both defaults are
  applied. In each case no error is recorded and loading ends.
\<close>

theorem loadData_partial_failure:
  "nodes zero_nodes = [] \<and> total_nodes zero_nodes = 0 \<and> online_nodes zero_nodes = 0 \<and>
   d_data (loadData (Inl e) (Inr (FilesArray fs)) s) = Some zero_nodes \<and>
   d_files (loadData (Inl e) (Inr (FilesArray fs)) s) = fs \<and>
   d_data (loadData (Inr r) (Inl e) s) = Some r \<and>
   d_files (loadData (Inr r) (Inl e) s) = [] \<and>
   d_data (loadData (Inl e) (Inl e') s) = Some zero_nodes \<and>
   d_files (loadData (Inl e) (Inl e') s) = [] \<and>
   d_error (loadData node_fetch files_fetch s) = None \<and>
   d_loading (loadData node_fetch files_fetch s) = False"
  by (simp add: loadData_def Let_def zero_nodes_def)

theorem loadData_partial_failure_witness:
  "d_data (loadData (Inl \<lparr>detail = None\<rparr>) (Inr (FilesArray [replication_file])) dash0) =
     Some \<lparr>total_nodes = 0, online_nodes = 0, nodes = []\<rparr> \<and>
   d_files (loadData (Inl \<lparr>detail = None\<rparr>) (Inr (FilesArray [replication_file])) dash0) =
     [replication_file] \<and>
   d_data (loadData (Inr \<lparr>total_nodes = 5, online_nodes = 4, nodes = cluster_one_down\<rparr>)
      (Inl \<lparr>detail = None\<rparr>) dash0) =
     Some \<lparr>total_nodes = 5, online_nodes = 4, nodes = cluster_one_down\<rparr> \<and>
   d_files (loadData (Inr \<lparr>total_nodes = 5, online_nodes = 4, nodes = cluster_one_down\<rparr>)
      (Inl \<lparr>detail = None\<rparr>) dash0) = []"
  using loadData_partial_failure
          [of "\<lparr>detail = None\<rparr>" "[replication_file]" dash0
              "\<lparr>total_nodes = 5, online_nodes = 4, nodes = cluster_one_down\<rparr>"]
  by (simp add: zero_nodes_def)


section \<open>Node card: properties\<close>

lemma nodeData_status:
  "status node \<noteq> ''online'' \<Longrightarrow> \<not> isOnline (nodeData now node)"
  by (simp add: isOnline_def nodeData_def)

text \<open>
  C10. For a node whose status is not "online", whatever the snapshot says about its
  usage: the displayed used bytes are 0 (printed as "0 B"), the displayed file count is
  0, the displayed utilization and the width of its bar are 0, and the displayed
  available space is the capacity of the node, which is the snapshot's
  \<^verbatim>\<open>capacity_bytes\<close> when that is present and not zero.
\<close>

theorem NodeCard_offline_display:
  assumes "status node \<noteq> ''online''"
  shows "displayUsed (nodeData now node) = 0 \<and>
         formatBytes fmt (displayUsed (nodeData now node)) = ''0 B'' \<and>
         displayFiles (nodeData now node) = 0 \<and>
         displayUtilization (nodeData now node) = 0 \<and>
         barWidth (nodeData now node) = 0 \<and>
         displayAvailable (nodeData now node) = nd_capacity_bytes (nodeData now node) \<and>
         (capacity_bytes node = Some c \<and> c \<noteq> 0 \<longrightarrow>
            displayAvailable (nodeData now node) = c)"
proof -
  from assms have off: "\<not> isOnline (nodeData now node)"
    by (rule nodeData_status)
  have cap: "capacity_bytes node = Some c \<and> c \<noteq> 0 \<longrightarrow>
      nd_capacity_bytes (nodeData now node) = c"
    by (simp add: nodeData_def or_num_def)
  from off cap show ?thesis
    by (simp add: displayUsed_def displayFiles_def displayUtilization_def barWidth_def
          displayAvailable_def formatBytes_def)
qed

theorem NodeCard_offline_display_witness:
  "status (mk_node ''node-2'' ''offline'') \<noteq> ''online'' \<and>
   used_bytes (mk_node ''node-2'' ''offline'') = Some 1048576 \<and>
   files_count (mk_node ''node-2'' ''offline'') = 12 \<and>
   utilization_percent (mk_node ''node-2'' ''offline'') = Some 42 \<and>
   displayUsed card2 = 0 \<and> displayFiles card2 = 0 \<and> displayUtilization card2 = 0 \<and>
   displayAvailable card2 = 53687091200"
proof -
  have h: "status (mk_node ''node-2'' ''offline'') \<noteq> ''online''"
    by (simp add: mk_node_def)
  have c: "capacity_bytes (mk_node ''node-2'' ''offline'') = Some 53687091200 \<and>
           (53687091200::int) \<noteq> 0"
    by (simp add: mk_node_def)
  have v: "used_bytes (mk_node ''node-2'' ''offline'') = Some 1048576"
          "files_count (mk_node ''node-2'' ''offline'') = 12"
          "utilization_percent (mk_node ''node-2'' ''offline'') = Some 42"
    by (simp_all add: mk_node_def)
  from NodeCard_offline_display
         [OF h, of "''2024-01-15T10:31:00Z''" "\<lambda>b. ''?''" 53687091200] h c v
  show ?thesis by (simp add: card2_def)
qed

end
